theory Spec2Isabelle
  imports Main "HOL-Library.Word" "HOL-Library.Signed_Division"
begin

section \<open>Response wrappers (packages logging and metrics)\<close>

text \<open>
  Both packages declare the same struct \<^verbatim>\<open>responseWriter\<close> with the same two methods
  \<^verbatim>\<open>WriteHeader\<close> and \<^verbatim>\<open>Write\<close>; the two declarations are equal line by line, so one
  record and one pair of functions stand for both. They differ only in the value the
  middleware builds: logging leaves \<^verbatim>\<open>statusCode\<close> at Go's zero value, metrics sets it to
  \<^verbatim>\<open>http.StatusOK\<close>.

  The embedded \<^verbatim>\<open>http.ResponseWriter\<close> is an interface value of the caller. It is modelled
  by the sequence of method calls it has received, oldest first: whatever the real writer
  does is a function of that sequence. The pair \<^verbatim>\<open>(int, error)\<close> that \<^verbatim>\<open>Write\<close> returns is
  the underlying writer's own result, handed back as it is, and is not part of the model.
  Go's \<^verbatim>\<open>int\<close> is modelled by \<^typ>\<open>int\<close>: a status code is only stored, compared and printed.
\<close>

type_synonym bytes = "8 word list"

datatype call = CallWriteHeader int | CallWrite bytes

definition StatusOK :: int where
  "StatusOK = 200"

definition StatusServiceUnavailable :: int where
  "StatusServiceUnavailable = 503"

record responseWriter =
  ResponseWriter :: "call list"
  statusCode :: int
  written :: bool

definition WriteHeader :: "responseWriter \<Rightarrow> int \<Rightarrow> responseWriter" where
  "WriteHeader rw code =
     (if \<not> written rw
      then rw\<lparr>statusCode := code, written := True,
              ResponseWriter := ResponseWriter rw @ [CallWriteHeader code]\<rparr>
      else rw)"

definition Write :: "responseWriter \<Rightarrow> bytes \<Rightarrow> responseWriter" where
  "Write rw b =
     (let rw1 = (if \<not> written rw then WriteHeader rw StatusOK else rw)
      in rw1\<lparr>ResponseWriter := ResponseWriter rw1 @ [CallWrite b]\<rparr>)"

text \<open>
  A handler that is given a writer calls its methods some number of times. \<open>invoke\<close>
  dispatches one such call to the wrapper, \<open>serveCalls\<close> performs them in order.
\<close>

fun invoke :: "responseWriter \<Rightarrow> call \<Rightarrow> responseWriter" where
  "invoke rw (CallWriteHeader code) = WriteHeader rw code"
| "invoke rw (CallWrite b) = Write rw b"

fun serveCalls :: "responseWriter \<Rightarrow> call list \<Rightarrow> responseWriter" where
  "serveCalls rw [] = rw"
| "serveCalls rw (c # cs) = serveCalls (invoke rw c) cs"

text \<open>
  Two notions used to state what the wrapper records and forwards: whether a call is a
  \<^verbatim>\<open>Write\<close>, and the status a call fixes when it is the first one.
\<close>

fun isWrite :: "call \<Rightarrow> bool" where
  "isWrite (CallWrite b) = True"
| "isWrite (CallWriteHeader code) = False"

fun firstStatus :: "call \<Rightarrow> int" where
  "firstStatus (CallWriteHeader code) = code"
| "firstStatus (CallWrite b) = StatusOK"

section \<open>Request-scoped context, headers and requests (standard library)\<close>

text \<open>
  \<^verbatim>\<open>context.WithValue\<close> builds a chain of key and value pairs and \<^verbatim>\<open>ctx.Value(key)\<close>
  returns the value of the nearest pair whose key equals \<open>key\<close>. Keys are interface
  values, and two interface values are equal only when their dynamic types and their
  values are both equal. A key is therefore a pair of the key's Go type and its value:
  the untyped constant \<^verbatim>\<open>"trace_id"\<close> passed to \<^verbatim>\<open>Value\<close> has type \<^verbatim>\<open>string\<close>, while
  \<^verbatim>\<open>traceIDKey\<close> has type \<^verbatim>\<open>trace.contextKey\<close>.
\<close>

datatype keyType = T_string | T_trace_contextKey | T_logging_contextKey | T_chi_contextKey

type_synonym ctxKey = "keyType \<times> string"

text \<open>
  A zerolog logger is one of the values kept in a context, so its type comes first: a
  minimum level and the fields added to every event. \<open>FTimestamp\<close> is the field the
  \<^verbatim>\<open>Timestamp()\<close> hook adds, the others are \<^verbatim>\<open>Str\<close>, \<^verbatim>\<open>Int\<close> and \<^verbatim>\<open>Int64\<close> with their key
  and value.
\<close>

datatype Level = DebugLevel | InfoLevel | WarnLevel | ErrorLevel

datatype field = FTimestamp | FStr string string | FInt string int | FInt64 string int

record zerolog_Logger =
  zl_level :: Level
  zl_context :: "field list"

text \<open>
  The values stored in a context are of type \<^verbatim>\<open>any\<close>. The ones this repository stores or
  reads are strings, a pointer to a \<^verbatim>\<open>zerolog.Logger\<close> and chi's \<^verbatim>\<open>*chi.Context\<close>; \<open>AInt\<close>
  stands for a value of some other type. \<open>AChiContext p\<close> is a non-nil route context
  whose \<^verbatim>\<open>RoutePattern()\<close> returns \<open>p\<close> when it is asked after the handler has run.
\<close>

datatype any = AString string | ALogger zerolog_Logger | AChiContext string | AInt int

text \<open>
  A context also carries a deadline; \<open>ctxTimeout\<close> is the time left until it, in
  nanoseconds, when there is one.
\<close>

record gocontext =
  ctxValues :: "(ctxKey \<times> any) list"
  ctxTimeout :: "int option"

definition WithValue :: "gocontext \<Rightarrow> ctxKey \<Rightarrow> any \<Rightarrow> gocontext" where
  "WithValue ctx key val = ctx\<lparr>ctxValues := (key, val) # ctxValues ctx\<rparr>"

definition Value :: "gocontext \<Rightarrow> ctxKey \<Rightarrow> any option" where
  "Value ctx key = map_of (ctxValues ctx) key"

definition Second :: int where
  "Second = 1000000000"

definition WithTimeout :: "gocontext \<Rightarrow> int \<Rightarrow> gocontext" where
  "WithTimeout ctx d =
     ctx\<lparr>ctxTimeout := (case ctxTimeout ctx of None \<Rightarrow> Some d | Some p \<Rightarrow> Some (min p d))\<rparr>"

text \<open>
  \<^verbatim>\<open>http.Header\<close> maps a canonical key to its list of values. \<^verbatim>\<open>Get\<close> and \<^verbatim>\<open>Set\<close>
  canonicalise the key they are given: the first letter and every letter after a hyphen
  in upper case, the other letters in lower case; a key with a byte that is not a token
  character is left as it is.
\<close>

type_synonym http_Header = "string \<rightharpoonup> string list"

definition validHeaderFieldByte :: "char \<Rightarrow> bool" where
  "validHeaderFieldByte c =
     (let n = (of_char c :: nat)
      in n = 33 \<or> (35 \<le> n \<and> n \<le> 39) \<or> n = 42 \<or> n = 43 \<or> n = 45 \<or> n = 46
         \<or> (48 \<le> n \<and> n \<le> 57) \<or> (65 \<le> n \<and> n \<le> 90) \<or> (94 \<le> n \<and> n \<le> 122)
         \<or> n = 124 \<or> n = 126)"

fun canonicalise :: "bool \<Rightarrow> string \<Rightarrow> string" where
  "canonicalise upper [] = []"
| "canonicalise upper (c # cs) =
     (let n = (of_char c :: nat);
          c' = (if upper \<and> 97 \<le> n \<and> n \<le> 122 then char_of (n - 32)
                else if \<not> upper \<and> 65 \<le> n \<and> n \<le> 90 then char_of (n + 32)
                else c)
      in c' # canonicalise (c' = CHR ''-'') cs)"

definition CanonicalMIMEHeaderKey :: "string \<Rightarrow> string" where
  "CanonicalMIMEHeaderKey s = (if list_all validHeaderFieldByte s then canonicalise True s else s)"

definition Header_Get :: "http_Header \<Rightarrow> string \<Rightarrow> string" where
  "Header_Get h key =
     (case h (CanonicalMIMEHeaderKey key) of
        None \<Rightarrow> ''''
      | Some [] \<Rightarrow> ''''
      | Some (v # vs) \<Rightarrow> v)"

definition Header_Set :: "http_Header \<Rightarrow> string \<Rightarrow> string \<Rightarrow> http_Header" where
  "Header_Set h key v = h(CanonicalMIMEHeaderKey key \<mapsto> [v])"

record request =
  Method :: string
  URL_Path :: string
  RemoteAddr :: string
  Header :: http_Header
  Context :: gocontext

text \<open>
  What one execution of a handler's \<^verbatim>\<open>ServeHTTP(w, r)\<close> does, as far as the middleware
  can see it: the calls it makes on the writer it was given, the events it logs, the
  time \<^verbatim>\<open>time.Since(start)\<close> reports once it is over (a \<^verbatim>\<open>time.Duration\<close>, in
  nanoseconds), and whether it returned or panicked. A handler is a function from the
  request it receives to such an execution.
\<close>

record Event =
  ev_level :: Level
  ev_fields :: "field list"
  ev_message :: string

record run =
  calls :: "call list"
  logged :: "Event list"
  elapsed :: int
  panicked :: bool

section \<open>Package trace\<close>

definition traceIDKey :: ctxKey where
  "traceIDKey = (T_trace_contextKey, ''trace_id'')"

definition requestIDKey :: ctxKey where
  "requestIDKey = (T_trace_contextKey, ''request_id'')"

text \<open>
  \<^verbatim>\<open>uuid.NewString\<close> belongs to an external library. It is a parameter of the model: a
  function from the state of the random source to the token and the next state. The
  writer \<open>w\<close> is represented by its header map, the only part of it the middleware
  touches, and \<open>next\<close> is whatever \<^verbatim>\<open>next.ServeHTTP\<close> does with the writer and the request
  it is handed.
\<close>

definition trace_Middleware ::
  "('g \<Rightarrow> string \<times> 'g) \<Rightarrow> (http_Header \<Rightarrow> request \<Rightarrow> 'g \<Rightarrow> 'a) \<Rightarrow> http_Header \<Rightarrow> request \<Rightarrow> 'g \<Rightarrow> 'a" where
  "trace_Middleware NewString next w r g =
     (let traceID = Header_Get (Header r) ''X-Trace-ID'';
          (traceID, g) = (if traceID = '''' then NewString g else (traceID, g));
          requestID = Header_Get (Header r) ''X-Request-ID'';
          (requestID, g) = (if requestID = '''' then NewString g else (requestID, g));
          ctx = WithValue (Context r) traceIDKey (AString traceID);
          ctx = WithValue ctx requestIDKey (AString requestID);
          w = Header_Set w ''X-Trace-ID'' traceID;
          w = Header_Set w ''X-Request-ID'' requestID
      in next w (r\<lparr>Context := ctx\<rparr>) g)"

definition TraceIDFromContext :: "gocontext \<Rightarrow> string" where
  "TraceIDFromContext ctx =
     (case Value ctx traceIDKey of Some (AString traceID) \<Rightarrow> traceID | _ \<Rightarrow> '''')"

definition RequestIDFromContext :: "gocontext \<Rightarrow> string" where
  "RequestIDFromContext ctx =
     (case Value ctx requestIDKey of Some (AString requestID) \<Rightarrow> requestID | _ \<Rightarrow> '''')"

section \<open>Package logging\<close>

text \<open>
  Of zerolog the model keeps what the middleware relies on. A logger has a minimum
  level and a list of context fields; \<^verbatim>\<open>With().Str(k, v).Logger()\<close> returns a logger with
  one more context field. An event started with \<^verbatim>\<open>Debug()\<close>, \<^verbatim>\<open>Info()\<close>, \<^verbatim>\<open>Warn()\<close> or
  \<^verbatim>\<open>Error()\<close> is written by \<^verbatim>\<open>Msg\<close> when its level is not below the logger's level, and
  carries the logger's context fields followed by its own. The output stream is the list
  of events written, oldest first.
\<close>

fun levelNum :: "Level \<Rightarrow> nat" where
  "levelNum DebugLevel = 0"
| "levelNum InfoLevel = 1"
| "levelNum WarnLevel = 2"
| "levelNum ErrorLevel = 3"

definition With_Str :: "zerolog_Logger \<Rightarrow> string \<Rightarrow> string \<Rightarrow> zerolog_Logger" where
  "With_Str lg k v = lg\<lparr>zl_context := zl_context lg @ [FStr k v]\<rparr>"

definition Msg :: "zerolog_Logger \<Rightarrow> Level \<Rightarrow> field list \<Rightarrow> string \<Rightarrow> Event list \<Rightarrow> Event list" where
  "Msg lg lvl fs msg out =
     (if levelNum (zl_level lg) \<le> levelNum lvl
      then out @ [\<lparr>ev_level = lvl, ev_fields = zl_context lg @ fs, ev_message = msg\<rparr>]
      else out)"

definition loggerKey :: ctxKey where
  "loggerKey = (T_logging_contextKey, ''logger'')"

record logging_Logger =
  Logger :: zerolog_Logger
  serviceName :: string

definition NewLogger :: "string \<Rightarrow> bool \<Rightarrow> logging_Logger" where
  "NewLogger name debug =
     (let level = (if debug then DebugLevel else InfoLevel);
          logger = \<lparr>zl_level = level, zl_context = [FTimestamp, FStr ''service'' name]\<rparr>
      in \<lparr>Logger = logger, serviceName = name\<rparr>)"

definition WithContext :: "logging_Logger \<Rightarrow> gocontext \<Rightarrow> zerolog_Logger" where
  "WithContext l ctx =
     (let logger = Logger l;
          logger = (case Value ctx (T_string, ''trace_id'') of
                      Some (AString id') \<Rightarrow> With_Str logger ''trace_id'' id'
                    | _ \<Rightarrow> logger);
          logger = (case Value ctx (T_string, ''request_id'') of
                      Some (AString id') \<Rightarrow> With_Str logger ''request_id'' id'
                    | _ \<Rightarrow> logger);
          logger = (case Value ctx (T_string, ''user_id'') of
                      Some (AString id') \<Rightarrow> With_Str logger ''user_id'' id'
                    | _ \<Rightarrow> logger)
      in logger)"

text \<open>
  \<^verbatim>\<open>Duration.Milliseconds\<close> is the integer division of the nanoseconds by \<open>10\<^sup>6\<close>; Go's
  integer division truncates towards zero.
\<close>

definition Milliseconds :: "int \<Rightarrow> int" where
  "Milliseconds d = d sdiv 1000000"

text \<open>
  The middleware takes the writer \<open>w\<close> (the calls it has received so far), the request
  and the output stream. It returns the writer, the output stream and whether the
  handler's panic is passing through, in which case the statements after
  \<^verbatim>\<open>next.ServeHTTP\<close> have not run.
\<close>

record logging_result =
  lr_writer :: "call list"
  lr_out :: "Event list"
  lr_panicked :: bool

definition Logger_Middleware ::
  "logging_Logger \<Rightarrow> (request \<Rightarrow> run) \<Rightarrow> call list \<Rightarrow> request \<Rightarrow> Event list \<Rightarrow> logging_result" where
  "Logger_Middleware l next w r out =
     (let logger = WithContext l (Context r);
          out = Msg logger DebugLevel
                  [FStr ''http.method'' (Method r), FStr ''http.path'' (URL_Path r),
                   FStr ''http.remote_addr'' (RemoteAddr r)]
                  ''request started'' out;
          ww = \<lparr>ResponseWriter = w, statusCode = 0, written = False\<rparr>;
          ctx = WithValue (Context r) loggerKey (ALogger logger);
          h = next (r\<lparr>Context := ctx\<rparr>);
          ww = serveCalls ww (calls h);
          out = out @ logged h
      in if panicked h
         then \<lparr>lr_writer = ResponseWriter ww, lr_out = out, lr_panicked = True\<rparr>
         else
           (let duration = elapsed h;
                logEvent = (if statusCode ww \<ge> 500 then ErrorLevel
                            else if statusCode ww \<ge> 400 then WarnLevel
                            else InfoLevel);
                out = Msg logger logEvent
                        [FStr ''http.method'' (Method r), FStr ''http.path'' (URL_Path r),
                         FInt ''http.status'' (statusCode ww),
                         FInt64 ''duration_ms'' (Milliseconds duration)]
                        ''request completed'' out
            in \<lparr>lr_writer = ResponseWriter ww, lr_out = out, lr_panicked = False\<rparr>))"

definition FromContext :: "gocontext \<Rightarrow> zerolog_Logger" where
  "FromContext ctx =
     (case Value ctx loggerKey of
        Some (ALogger logger) \<Rightarrow> logger
      | _ \<Rightarrow> \<lparr>zl_level = DebugLevel, zl_context = [FTimestamp]\<rparr>)"

section \<open>Package metrics\<close>

text \<open>
  \<^verbatim>\<open>strconv.Itoa\<close> prints an integer in base 10, with a minus sign when it is negative.
\<close>

fun formatNat :: "nat \<Rightarrow> string" where
  "formatNat n =
     (if n < 10 then [char_of (48 + n)]
      else formatNat (n div 10) @ [char_of (48 + n mod 10)])"

declare formatNat.simps [simp del]

definition Itoa :: "int \<Rightarrow> string" where
  "Itoa i = (if i < 0 then CHR ''-'' # formatNat (nat (- i)) else formatNat (nat i))"

text \<open>
  \<^verbatim>\<open>utf8.ValidString\<close>: whether a string, taken as bytes, is a sequence of well-formed
  UTF-8 encodings. A byte below 128 stands alone; a first byte from 194 to 223 takes one
  continuation byte, from 224 to 239 two and from 240 to 244 three, each from 128 to
  191, with the narrower range for the second byte after 224, 237, 240 and 244; any
  other byte, or a missing continuation byte, makes the string invalid.
\<close>

definition inRange :: "char \<Rightarrow> nat \<Rightarrow> nat \<Rightarrow> bool" where
  "inRange c lo hi = (lo \<le> of_char c \<and> (of_char c :: nat) \<le> hi)"

fun ValidString :: "string \<Rightarrow> bool" where
  "ValidString [] = True"
| "ValidString (c # cs) =
     (let n = (of_char c :: nat)
      in if n < 128 then ValidString cs
         else if 194 \<le> n \<and> n \<le> 223 then
           (case cs of
              c1 # rest \<Rightarrow> inRange c1 128 191 \<and> ValidString rest
            | _ \<Rightarrow> False)
         else if 224 \<le> n \<and> n \<le> 239 then
           (case cs of
              c1 # c2 # rest \<Rightarrow>
                inRange c1 (if n = 224 then 160 else 128) (if n = 237 then 159 else 191)
                \<and> inRange c2 128 191 \<and> ValidString rest
            | _ \<Rightarrow> False)
         else if 240 \<le> n \<and> n \<le> 244 then
           (case cs of
              c1 # c2 # c3 # rest \<Rightarrow>
                inRange c1 (if n = 240 then 144 else 128) (if n = 244 then 143 else 191)
                \<and> inRange c2 128 191 \<and> inRange c3 128 191 \<and> ValidString rest
            | _ \<Rightarrow> False)
         else False)"

text \<open>
  A Prometheus vector holds one series for each list of label values. A counter series
  is the number of times \<^verbatim>\<open>Inc\<close> was called on it, a histogram series the list of
  observed values, oldest first, and a gauge an integer that \<^verbatim>\<open>Inc\<close> and \<^verbatim>\<open>Dec\<close> move by
  one. The value given to \<^verbatim>\<open>Observe\<close> is the elapsed time; the model keeps it as the
  \<^verbatim>\<open>time.Duration\<close> (nanoseconds) from which the code computes the seconds.
\<close>

record Collector =
  requestsTotal :: "string list \<Rightarrow> nat"
  requestDuration :: "string list \<Rightarrow> int list"
  requestsInFlight :: int
  errorsTotal :: "string list \<Rightarrow> nat"

definition CounterVec_Inc :: "(string list \<Rightarrow> nat) \<Rightarrow> string list \<Rightarrow> (string list \<Rightarrow> nat)" where
  "CounterVec_Inc v lvs = v(lvs := v lvs + 1)"

definition HistogramVec_Observe :: "(string list \<Rightarrow> int list) \<Rightarrow> string list \<Rightarrow> int \<Rightarrow> (string list \<Rightarrow> int list)" where
  "HistogramVec_Observe v lvs d = v(lvs := v lvs @ [d])"

text \<open>
  \<^verbatim>\<open>WithLabelValues\<close> panics unless it is given as many values as the vector has label
  names and every value is valid UTF-8; \<open>validateLabelValues\<close> is that check. The request
  counter has the three label names method, path and status, the duration histogram
  the two names method and path.
\<close>

definition validateLabelValues :: "string list \<Rightarrow> nat \<Rightarrow> bool" where
  "validateLabelValues vals expectedNumberOfValues =
     (length vals = expectedNumberOfValues \<and> list_all ValidString vals)"

definition RouteCtxKey :: ctxKey where
  "RouteCtxKey = (T_chi_contextKey, ''RouteContext'')"

text \<open>
  \<^verbatim>\<open>chi.RouteContext\<close> returns the \<^verbatim>\<open>*chi.Context\<close> stored in the context under chi's own
  key, or nil; \<open>None\<close> is nil, and \<open>Some p\<close> is a route context whose \<^verbatim>\<open>RoutePattern()\<close>
  is \<open>p\<close>.
\<close>

definition RouteContext :: "gocontext \<Rightarrow> string option" where
  "RouteContext ctx = (case Value ctx RouteCtxKey of Some (AChiContext p) \<Rightarrow> Some p | _ \<Rightarrow> None)"

text \<open>
  The middleware takes the collector, the writer \<open>w\<close> and the request, and returns the
  writer, the collector and whether a panic is passing through. The function registered
  with \<^verbatim>\<open>defer\<close> runs when the handler returns and when it panics. It panics itself,
  at the statement it has reached, when \<^verbatim>\<open>WithLabelValues\<close> refuses the label values:
  the gauge has been decremented by then, and the statements after the refused call do
  not run.
\<close>

record metrics_result =
  mr_writer :: "call list"
  mr_collector :: Collector
  mr_panicked :: bool

definition Collector_Middleware ::
  "Collector \<Rightarrow> (request \<Rightarrow> run) \<Rightarrow> call list \<Rightarrow> request \<Rightarrow> metrics_result" where
  "Collector_Middleware c next w r =
     (if URL_Path r = ''/metrics''
      then (let h = next r
            in \<lparr>mr_writer = w @ calls h, mr_collector = c, mr_panicked = panicked h\<rparr>)
      else
        (let c = c\<lparr>requestsInFlight := requestsInFlight c + 1\<rparr>;
             ww = \<lparr>ResponseWriter = w, statusCode = StatusOK, written = False\<rparr>;
             h = next r;
             ww = serveCalls ww (calls h);
             c = c\<lparr>requestsInFlight := requestsInFlight c - 1\<rparr>;
             duration = elapsed h;
             path = URL_Path r;
             path = (case RouteContext (Context r) of
                       Some pattern \<Rightarrow> if pattern \<noteq> '''' then pattern else path
                     | None \<Rightarrow> path)
         in if \<not> validateLabelValues [Method r, path, Itoa (statusCode ww)] 3
            then \<lparr>mr_writer = ResponseWriter ww, mr_collector = c, mr_panicked = True\<rparr>
            else
              (let c = c\<lparr>requestsTotal :=
                        CounterVec_Inc (requestsTotal c) [Method r, path, Itoa (statusCode ww)]\<rparr>
               in if \<not> validateLabelValues [Method r, path] 2
                  then \<lparr>mr_writer = ResponseWriter ww, mr_collector = c, mr_panicked = True\<rparr>
                  else
                    (let c = c\<lparr>requestDuration :=
                              HistogramVec_Observe (requestDuration c) [Method r, path] duration\<rparr>
                     in \<lparr>mr_writer = ResponseWriter ww, mr_collector = c,
                         mr_panicked = panicked h\<rparr>))))"

text \<open>
  The status class as the specification words it: the status code divided by 100 as
  integers, printed.
\<close>

definition spec_statusClass :: "int \<Rightarrow> string" where
  "spec_statusClass s = Itoa (s sdiv 100)"

section \<open>Package health\<close>

text \<open>
  A \<^verbatim>\<open>Checker\<close> is a function from a context to an error. A probe reads the outside
  world, so the model hands it the state of the world and gets the next state back. An
  error is represented by its message, the string \<^verbatim>\<open>err.Error()\<close> returns, and a nil
  error by \<open>None\<close>.
\<close>

type_synonym error = string

type_synonym 'w Checker = "gocontext \<Rightarrow> 'w \<Rightarrow> error option \<times> 'w"

record CheckResult =
  cr_Name :: string
  cr_Status :: string
  cr_Error :: string

record HealthResponse =
  hr_Status :: string
  hr_Checks :: "CheckResult list"

text \<open>
  The handler asks, by a type assertion, whether the checker has a method
  \<^verbatim>\<open>Name() string\<close>. The operand \<^verbatim>\<open>checker\<close> is a variable of type \<^verbatim>\<open>Checker\<close>, a function
  type; Go allows a type assertion on an operand of interface type only, so the
  compiler refuses the statement and the source gives it no result. The model does not
  choose one: the lookup is the parameter \<open>nameOf\<close> of the loop, a function from the
  checker to the name found, \<open>None\<close> when none is found, and what is proved of the
  handler is proved for every \<open>nameOf\<close>.
\<close>

record 'w namedChecker =
  name :: string
  checker :: "'w Checker"

definition namedChecker_Name :: "'w namedChecker \<Rightarrow> string" where
  "namedChecker_Name n = name n"

definition Call :: "'w namedChecker \<Rightarrow> 'w Checker" where
  "Call n ctx = checker n ctx"

text \<open>
  The database handle is represented by its \<^verbatim>\<open>PingContext\<close> method, the Redis client by
  its \<^verbatim>\<open>Ping\<close> method.
\<close>

definition DatabaseChecker :: "'w Checker \<Rightarrow> 'w Checker" where
  "DatabaseChecker PingContext = Call \<lparr>name = ''database'', checker = (\<lambda>ctx. PingContext ctx)\<rparr>"

definition CustomChecker :: "string \<Rightarrow> 'w Checker \<Rightarrow> 'w Checker" where
  "CustomChecker nm chk = Call \<lparr>name = nm, checker = chk\<rparr>"

definition RedisChecker :: "'w Checker \<Rightarrow> 'w Checker" where
  "RedisChecker Ping = Call \<lparr>name = ''redis'', checker = (\<lambda>ctx. Ping ctx)\<rparr>"

text \<open>
  The loop over the checkers, with the variables \<^verbatim>\<open>results\<close> and \<^verbatim>\<open>allOK\<close> it updates.
\<close>

fun checkLoop ::
  "('w Checker \<Rightarrow> string option) \<Rightarrow> 'w Checker list \<Rightarrow> gocontext \<Rightarrow> CheckResult list \<Rightarrow> bool \<Rightarrow> 'w \<Rightarrow> CheckResult list \<times> bool \<times> 'w" where
  "checkLoop nameOf [] ctx results allOK world = (results, allOK, world)"
| "checkLoop nameOf (chk # rest) ctx results allOK world =
     (let nm = (case nameOf chk of Some n \<Rightarrow> n | None \<Rightarrow> ''dependency'');
          result = \<lparr>cr_Name = nm, cr_Status = ''ok'', cr_Error = ''''\<rparr>;
          (err, world) = chk ctx world;
          (result, allOK) =
             (case err of
                Some e \<Rightarrow> (result\<lparr>cr_Status := ''error'', cr_Error := e\<rparr>, False)
              | None \<Rightarrow> (result, allOK))
      in checkLoop nameOf rest ctx (results @ [result]) allOK world)"

text \<open>
  What the handler writes: the header it sets on \<open>w\<close>, the status code it passes to
  \<^verbatim>\<open>WriteHeader\<close> and the value it gives to the JSON encoder.
\<close>

record readiness_result =
  rr_header :: http_Header
  rr_statusCode :: int
  rr_response :: HealthResponse

definition ReadinessHandler ::
  "('w Checker \<Rightarrow> string option) \<Rightarrow> 'w Checker list \<Rightarrow> http_Header \<Rightarrow> request \<Rightarrow> 'w \<Rightarrow> readiness_result \<times> 'w" where
  "ReadinessHandler nameOf checkers w r world =
     (let ctx = WithTimeout (Context r) (5 * Second);
          (results, allOK, world) = checkLoop nameOf checkers ctx [] True world;
          response = \<lparr>hr_Status = ''ok'', hr_Checks = results\<rparr>;
          statusCode = StatusOK;
          (response, statusCode) =
             (if \<not> allOK then (response\<lparr>hr_Status := ''error''\<rparr>, StatusServiceUnavailable)
              else (response, statusCode));
          w = Header_Set w ''Content-Type'' ''application/json''
      in (\<lparr>rr_header = w, rr_statusCode = statusCode, rr_response = response\<rparr>, world))"

text \<open>
  The errors the probes return when they are called one after the other in the order of
  registration, each on the state of the world the previous one left.
\<close>

fun probeReturns :: "'w Checker list \<Rightarrow> gocontext \<Rightarrow> 'w \<Rightarrow> error option list" where
  "probeReturns [] ctx world = []"
| "probeReturns (chk # rest) ctx world =
     (let (err, world) = chk ctx world in err # probeReturns rest ctx world)"

fun resultOf :: "error option \<Rightarrow> string \<times> string" where
  "resultOf None = (''ok'', '''')"
| "resultOf (Some e) = (''error'', e)"

section \<open>Properties of the response wrappers\<close>

lemma invoke_written: "written rw \<Longrightarrow> written (invoke rw c)"
  by (cases c) (simp_all add: WriteHeader_def Write_def)

lemma invoke_fixes: "\<not> written rw \<Longrightarrow> written (invoke rw c) \<and> statusCode (invoke rw c) = firstStatus c"
  by (cases c) (simp_all add: WriteHeader_def Write_def)

lemma invoke_frozen: "written rw \<Longrightarrow> statusCode (invoke rw c) = statusCode rw"
  by (cases c) (simp_all add: WriteHeader_def Write_def)

lemma serveCalls_frozen: "written rw \<Longrightarrow> statusCode (serveCalls rw cs) = statusCode rw"
  by (induction cs arbitrary: rw) (simp_all add: invoke_written invoke_frozen)

lemma serveCalls_written: "written rw \<Longrightarrow> written (serveCalls rw cs)"
  by (induction cs arbitrary: rw) (simp_all add: invoke_written)

lemma invoke_forward_written:
  "written rw \<Longrightarrow> ResponseWriter (invoke rw c) = ResponseWriter rw @ filter isWrite [c]"
  by (cases c) (simp_all add: WriteHeader_def Write_def)

lemma serveCalls_forward_written:
  "written rw \<Longrightarrow> ResponseWriter (serveCalls rw cs) = ResponseWriter rw @ filter isWrite cs"
  by (induction cs arbitrary: rw) (simp_all add: invoke_written invoke_forward_written)

lemma invoke_forward_first:
  "\<not> written rw \<Longrightarrow>
   ResponseWriter (invoke rw c) = ResponseWriter rw @ CallWriteHeader (firstStatus c) # filter isWrite [c]"
  by (cases c) (simp_all add: WriteHeader_def Write_def)

text \<open>
  Claim C1. On a wrapper that has not been written to, the first call fixes the recorded
  status: \<^verbatim>\<open>WriteHeader(code)\<close> records \<open>code\<close>, \<^verbatim>\<open>Write\<close> records 200. Whatever calls
  follow, in any number, and one more \<^verbatim>\<open>WriteHeader\<close> or \<^verbatim>\<open>Write\<close> after them, leave the
  recorded status at that value. The wrapper is arbitrary apart from \<open>written\<close> being
  false, which covers the value built by logging (status 0) and by metrics (status 200).
\<close>

theorem first_call_fixes_status:
  assumes "\<not> written rw"
  shows "statusCode (serveCalls rw [c]) = (case c of CallWriteHeader code \<Rightarrow> code | CallWrite b \<Rightarrow> 200)
       \<and> statusCode (serveCalls rw (c # cs)) = statusCode (serveCalls rw [c])
       \<and> statusCode (WriteHeader (serveCalls rw (c # cs)) code') = statusCode (serveCalls rw [c])
       \<and> statusCode (Write (serveCalls rw (c # cs)) b') = statusCode (serveCalls rw [c])"
proof -
  let ?rw1 = "invoke rw c"
  from assms have w1: "written ?rw1" and s1: "statusCode ?rw1 = firstStatus c"
    using invoke_fixes by blast+
  have a: "statusCode (serveCalls rw [c]) = (case c of CallWriteHeader code \<Rightarrow> code | CallWrite b \<Rightarrow> 200)"
    using s1 by (cases c) (simp_all add: StatusOK_def)
  have b: "statusCode (serveCalls rw (c # cs)) = statusCode (serveCalls rw [c])"
    using w1 by (simp add: serveCalls_frozen)
  have w2: "written (serveCalls rw (c # cs))"
    using w1 by (simp add: serveCalls_written)
  have c: "statusCode (WriteHeader (serveCalls rw (c # cs)) code') = statusCode (serveCalls rw [c])"
    using w2 b invoke_frozen [of "serveCalls rw (c # cs)" "CallWriteHeader code'"] by simp
  have d: "statusCode (Write (serveCalls rw (c # cs)) b') = statusCode (serveCalls rw [c])"
    using w2 b invoke_frozen [of "serveCalls rw (c # cs)" "CallWrite b'"] by simp
  from a b c d show ?thesis by blast
qed

theorem first_call_fixes_status_witness:
  "\<not> written \<lparr>ResponseWriter = [], statusCode = 0, written = False\<rparr>
   \<and> statusCode (serveCalls \<lparr>ResponseWriter = [], statusCode = 0, written = False\<rparr>
        [CallWriteHeader 201, CallWrite [1, 2], CallWriteHeader 404]) = 201
   \<and> statusCode (serveCalls \<lparr>ResponseWriter = [], statusCode = 0, written = False\<rparr>
        [CallWrite [1, 2], CallWriteHeader 404]) = 200"
  using first_call_fixes_status [of "\<lparr>ResponseWriter = [], statusCode = 0, written = False\<rparr>"
          "CallWriteHeader 201" "[CallWrite [1, 2], CallWriteHeader 404]"]
        first_call_fixes_status [of "\<lparr>ResponseWriter = [], statusCode = 0, written = False\<rparr>"
          "CallWrite [1, 2]" "[CallWriteHeader 404]"]
  by (simp add: WriteHeader_def Write_def StatusOK_def)

text \<open>
  Claim C2, as stated, says that every \<^verbatim>\<open>WriteHeader\<close> or \<^verbatim>\<open>Write\<close> after the first
  status-fixing call still reaches the wrapped writer. The delegation of \<^verbatim>\<open>WriteHeader\<close>
  sits inside the \<^verbatim>\<open>if !rw.written\<close> guard, so a second \<^verbatim>\<open>WriteHeader\<close> is not
  forwarded: after \<^verbatim>\<open>WriteHeader(201)\<close> and \<^verbatim>\<open>WriteHeader(404)\<close> the wrapped writer has
  received the first call only.
\<close>

theorem later_WriteHeader_not_forwarded:
  "ResponseWriter (serveCalls \<lparr>ResponseWriter = [], statusCode = 0, written = False\<rparr>
      [CallWriteHeader 201, CallWriteHeader 404]) = [CallWriteHeader 201]
   \<and> ResponseWriter (serveCalls \<lparr>ResponseWriter = [], statusCode = 0, written = False\<rparr>
      [CallWriteHeader 201, CallWriteHeader 404]) \<noteq> [CallWriteHeader 201, CallWriteHeader 404]"
  by (simp add: WriteHeader_def)

text \<open>
  Claim C2, amended. On a wrapper that has not been written to, the wrapped writer
  receives one \<^verbatim>\<open>WriteHeader\<close> carrying the status fixed by the first call (the explicit
  code, or 200 sent ahead of a first \<^verbatim>\<open>Write\<close>), followed by every \<^verbatim>\<open>Write\<close> call with
  its bytes unchanged and in the order made. \<^verbatim>\<open>WriteHeader\<close> calls after the first call
  are not forwarded.
\<close>

theorem forwarded_calls:
  assumes "\<not> written rw"
  shows "ResponseWriter (serveCalls rw (c # cs)) =
           ResponseWriter rw @ CallWriteHeader (firstStatus c) # filter isWrite (c # cs)"
proof -
  from assms have w1: "written (invoke rw c)"
    using invoke_fixes by blast
  have "ResponseWriter (serveCalls rw (c # cs)) = ResponseWriter (invoke rw c) @ filter isWrite cs"
    using w1 by (simp add: serveCalls_forward_written)
  also have "\<dots> = (ResponseWriter rw @ CallWriteHeader (firstStatus c) # filter isWrite [c]) @ filter isWrite cs"
    using invoke_forward_first [OF assms, of c] by simp
  finally show ?thesis by simp
qed

theorem forwarded_calls_witness:
  "\<not> written \<lparr>ResponseWriter = [], statusCode = 0, written = False\<rparr>
   \<and> ResponseWriter (serveCalls \<lparr>ResponseWriter = [], statusCode = 0, written = False\<rparr>
        [CallWrite [1], CallWriteHeader 404, CallWrite [2]])
     = [CallWriteHeader 200, CallWrite [1], CallWrite [2]]"
  using forwarded_calls [of "\<lparr>ResponseWriter = [], statusCode = 0, written = False\<rparr>"
          "CallWrite [1]" "[CallWriteHeader 404, CallWrite [2]]"]
  by (simp add: StatusOK_def)
section \<open>Properties of the trace middleware\<close>

lemma canon_trace: "CanonicalMIMEHeaderKey ''X-Trace-ID'' = ''X-Trace-Id''" by code_simp
lemma canon_request: "CanonicalMIMEHeaderKey ''X-Request-ID'' = ''X-Request-Id''" by code_simp

lemma Header_Get_empty_iff:
  "Header_Get h key = '''' \<longleftrightarrow>
     (h (CanonicalMIMEHeaderKey key) = None \<or> h (CanonicalMIMEHeaderKey key) = Some []
      \<or> (\<exists>vs. h (CanonicalMIMEHeaderKey key) = Some ('''' # vs)))"
  by (auto simp: Header_Get_def split: option.splits list.splits)

lemma Header_Get_Set_same: "Header_Get (Header_Set h key v) key = v"
  by (simp add: Header_Get_def Header_Set_def)

lemma Header_Get_trace_after_request:
  "Header_Get (Header_Set h ''X-Request-ID'' v) ''X-Trace-ID'' = Header_Get h ''X-Trace-ID''"
  by (simp add: Header_Get_def Header_Set_def canon_trace canon_request)

lemma trace_Middleware_next:
  "trace_Middleware NewString next w r g =
     (case trace_Middleware NewString (\<lambda>w r g. (w, r, g)) w r g of (w', r', g') \<Rightarrow> next w' r' g')"
  by (simp add: trace_Middleware_def Let_def split: prod.splits)

text \<open>
  Claim C5. Let the middleware run on any writer and request, and look at the writer and
  the request it hands to the next handler. The header \<^verbatim>\<open>X-Trace-ID\<close> of the response
  is the inbound value when \<^verbatim>\<open>Header.Get\<close> finds a non-empty one, and otherwise (header
  absent, without values, or with an empty first value: see \<open>Header_Get_empty_iff\<close>) the
  token \<^verbatim>\<open>uuid.NewString\<close> returns; the same holds for \<^verbatim>\<open>X-Request-ID\<close>, whose token
  comes from the next call of the generator. Both outbound values are non-empty, and
  the context of the request handed on yields the same two values. That the generator
  never returns the empty string is the contract of the uuid library and is assumed.
\<close>

theorem trace_ids_resolved:
  assumes "\<forall>g. fst (NewString g) \<noteq> ''''"
  shows "case trace_Middleware NewString (\<lambda>w r g. (w, r, g)) w r g of
           (w', r', g') \<Rightarrow>
             (let tin = Header_Get (Header r) ''X-Trace-ID'';
                  rin = Header_Get (Header r) ''X-Request-ID''
              in Header_Get w' ''X-Trace-ID'' \<noteq> ''''
               \<and> Header_Get w' ''X-Request-ID'' \<noteq> ''''
               \<and> Header_Get w' ''X-Trace-ID'' = (if tin = '''' then fst (NewString g) else tin)
               \<and> Header_Get w' ''X-Request-ID'' =
                    (if rin = '''' then fst (NewString (if tin = '''' then snd (NewString g) else g)) else rin)
               \<and> TraceIDFromContext (Context r') = Header_Get w' ''X-Trace-ID''
               \<and> RequestIDFromContext (Context r') = Header_Get w' ''X-Request-ID'')"
proof -
  have ne: "t \<noteq> ''''" if "NewString g0 = (t, g1)" for g0 t g1
    using assms that by (metis fst_conv)
  show ?thesis
    by (auto simp: trace_Middleware_def Let_def Header_Get_Set_same Header_Get_trace_after_request
        TraceIDFromContext_def RequestIDFromContext_def Value_def WithValue_def traceIDKey_def
        requestIDKey_def split: prod.splits dest: ne)
qed

text \<open>
  The hypothesis holds for a generator that returns a fixed UUID string; a request
  with only \<^verbatim>\<open>X-Trace-Id: abc\<close> keeps \<open>abc\<close> and gets a generated request token.
\<close>

theorem trace_ids_resolved_witness:
  "(\<forall>g::nat. fst ((\<lambda>n. (''7d444840-9dc0-41d1-b2f1-5e6f0a1c3b52'', Suc n)) g) \<noteq> '''')
   \<and> (case trace_Middleware (\<lambda>n. (''7d444840-9dc0-41d1-b2f1-5e6f0a1c3b52'', Suc n)) (\<lambda>w r g. (w, r, g))
            Map.empty
            \<lparr>Method = ''GET'', URL_Path = ''/hello'', RemoteAddr = ''10.0.0.1:4000'',
             Header = [''X-Trace-Id'' \<mapsto> [''abc'']],
             Context = \<lparr>ctxValues = [], ctxTimeout = None\<rparr>\<rparr> (0::nat) of
          (w', r', g') \<Rightarrow>
            Header_Get w' ''X-Trace-ID'' = ''abc''
            \<and> Header_Get w' ''X-Request-ID'' = ''7d444840-9dc0-41d1-b2f1-5e6f0a1c3b52''
            \<and> TraceIDFromContext (Context r') = ''abc''
            \<and> RequestIDFromContext (Context r') = ''7d444840-9dc0-41d1-b2f1-5e6f0a1c3b52'')"
  using trace_ids_resolved [where NewString = "\<lambda>n. (''7d444840-9dc0-41d1-b2f1-5e6f0a1c3b52'', Suc n)"
          and w = Map.empty and r =
          "\<lparr>Method = ''GET'', URL_Path = ''/hello'', RemoteAddr = ''10.0.0.1:4000'',
             Header = [''X-Trace-Id'' \<mapsto> [''abc'']],
             Context = \<lparr>ctxValues = [], ctxTimeout = None\<rparr>\<rparr>" and g = "0::nat"]
  by (simp add: Let_def Header_Get_def canon_trace canon_request split: prod.splits)
section \<open>Properties of the logging middleware\<close>

lemma Milliseconds_floor: "0 \<le> d \<Longrightarrow> Milliseconds d = d div 1000000"
  by (simp add: Milliseconds_def signed_divide_int_def sgn_if)

lemma WithContext_level: "zl_level (WithContext l ctx) = zl_level (Logger l)"
  by (simp add: WithContext_def With_Str_def Let_def split: option.splits any.splits)

lemma NewLogger_level: "levelNum (zl_level (Logger (NewLogger svc debug))) \<le> levelNum InfoLevel"
  by (simp add: NewLogger_def)

lemma Value_string_key_after_trace:
  "Value (WithValue (WithValue ctx traceIDKey a) requestIDKey b) (T_string, k) = Value ctx (T_string, k)"
  by (simp add: Value_def WithValue_def traceIDKey_def requestIDKey_def)

lemma WithContext_after_trace:
  "WithContext l (WithValue (WithValue ctx traceIDKey a) requestIDKey b) = WithContext l ctx"
  by (simp add: WithContext_def Value_string_key_after_trace)

text \<open>
  Claim C7 fails on the code. The trace middleware stores the identifiers under keys of
  type \<^verbatim>\<open>trace.contextKey\<close>; \<^verbatim>\<open>Logger.WithContext\<close> looks them up under the keys
  \<^verbatim>\<open>"trace_id"\<close> and \<^verbatim>\<open>"request_id"\<close> of type \<^verbatim>\<open>string\<close>, which are different keys,
  so the lookup returns nil and no field is added. For a request that carries
  \<^verbatim>\<open>X-Trace-Id: abc\<close> and \<^verbatim>\<open>X-Request-Id: req-1\<close> and runs through the trace middleware,
  then the logging middleware, then a handler that logs one event with the logger it
  finds in its context: the context holds both identifiers (the extractors of package
  trace return them), and none of the three events written carries \<open>trace_id\<close> or
  \<open>request_id\<close>. By \<open>WithContext_after_trace\<close> the logger is, for every request, the one
  \<^verbatim>\<open>WithContext\<close> would build had the trace middleware not run.
\<close>

theorem logger_misses_trace_ids:
  "trace_Middleware (\<lambda>n::nat. (''generated'', Suc n))
     (\<lambda>w r g. (TraceIDFromContext (Context r), RequestIDFromContext (Context r),
                lr_out (Logger_Middleware (NewLogger ''svc'' True)
         (\<lambda>r. \<lparr>calls = [CallWrite [72, 105]],
               logged = Msg (FromContext (Context r)) InfoLevel [] ''Hello endpoint called'' [],
               elapsed = 1500000, panicked = False\<rparr>) [] r [])))
     Map.empty
     \<lparr>Method = ''GET'', URL_Path = ''/hello'', RemoteAddr = ''10.0.0.1:4000'',
      Header = [''X-Trace-Id'' \<mapsto> [''abc''], ''X-Request-Id'' \<mapsto> [''req-1'']],
      Context = \<lparr>ctxValues = [], ctxTimeout = None\<rparr>\<rparr> 0
   = (''abc'', ''req-1'',
      [\<lparr>ev_level = DebugLevel,
        ev_fields = [FTimestamp, FStr ''service'' ''svc'', FStr ''http.method'' ''GET'',
                     FStr ''http.path'' ''/hello'', FStr ''http.remote_addr'' ''10.0.0.1:4000''],
        ev_message = ''request started''\<rparr>,
       \<lparr>ev_level = InfoLevel,
        ev_fields = [FTimestamp, FStr ''service'' ''svc''],
        ev_message = ''Hello endpoint called''\<rparr>,
       \<lparr>ev_level = InfoLevel,
        ev_fields = [FTimestamp, FStr ''service'' ''svc'', FStr ''http.method'' ''GET'',
                     FStr ''http.path'' ''/hello'', FInt ''http.status'' 200, FInt64 ''duration_ms'' 1],
        ev_message = ''request completed''\<rparr>])"
  by (simp add: trace_Middleware_def Logger_Middleware_def NewLogger_def WithContext_def
        FromContext_def Msg_def Let_def Header_Get_def Header_Set_def canon_trace canon_request
        TraceIDFromContext_def RequestIDFromContext_def Value_def WithValue_def traceIDKey_def
        requestIDKey_def loggerKey_def Write_def WriteHeader_def StatusOK_def Milliseconds_def
        signed_divide_int_def)

text \<open>
  Claim C8. When the handler returns, the middleware appends one event after the
  handler's own: its level is error for a captured status of 500 or more, warning for a
  status from 400 to 499, informational otherwise; its fields are the logger's context
  fields followed by method, path, captured status and the elapsed time in whole
  milliseconds, rounded down. The captured status is the wrapper's \<^verbatim>\<open>statusCode\<close> after
  the handler's calls. The elapsed time is not negative (\<^verbatim>\<open>time.Since\<close> of a
  \<^verbatim>\<open>time.Now()\<close> reads the monotonic clock), and the logger's minimum level is debug or
  informational, as for every logger \<^verbatim>\<open>NewLogger\<close> builds (\<open>NewLogger_level\<close>).
\<close>

theorem completion_event:
  assumes run: "nxt (r\<lparr>Context := WithValue (Context r) loggerKey (ALogger (WithContext l (Context r)))\<rparr>) = h"
    and returned: "\<not> panicked h"
    and nonneg: "0 \<le> elapsed h"
    and enabled: "levelNum (zl_level (Logger l)) \<le> levelNum InfoLevel"
  shows "let s = statusCode (serveCalls \<lparr>ResponseWriter = w, statusCode = 0, written = False\<rparr> (calls h));
             logger = WithContext l (Context r)
         in lr_out (Logger_Middleware l nxt w r out) =
              Msg logger DebugLevel
                [FStr ''http.method'' (Method r), FStr ''http.path'' (URL_Path r),
                 FStr ''http.remote_addr'' (RemoteAddr r)] ''request started'' out
              @ logged h
              @ [\<lparr>ev_level = (if s \<ge> 500 then ErrorLevel
                              else if 400 \<le> s \<and> s < 500 then WarnLevel
                              else InfoLevel),
                  ev_fields = zl_context logger @
                    [FStr ''http.method'' (Method r), FStr ''http.path'' (URL_Path r),
                     FInt ''http.status'' s, FInt64 ''duration_ms'' (elapsed h div 1000000)],
                  ev_message = ''request completed''\<rparr>]"
proof -
  let ?logger = "WithContext l (Context r)"
  let ?s = "statusCode (serveCalls \<lparr>ResponseWriter = w, statusCode = 0, written = False\<rparr> (calls h))"
  have ms: "Milliseconds (elapsed h) = elapsed h div 1000000"
    using nonneg by (rule Milliseconds_floor)
  have lv: "levelNum (zl_level ?logger) \<le> 1"
    using enabled by (simp add: WithContext_level)
  consider (err) "500 \<le> ?s" | (warn) "400 \<le> ?s" "?s < 500" | (info) "?s < 400"
    by linarith
  then show ?thesis
  proof cases
    case err
    then show ?thesis
      using returned lv by (simp add: Logger_Middleware_def Let_def run Msg_def ms)
  next
    case warn
    then show ?thesis
      using returned lv by (simp add: Logger_Middleware_def Let_def run Msg_def ms)
  next
    case info
    then show ?thesis
      using returned lv by (simp add: Logger_Middleware_def Let_def run Msg_def ms)
  qed
qed

text \<open>
  A handler that answers 503 after 2999999 ns, under a logger built by \<^verbatim>\<open>NewLogger\<close>
  without debug: one event, at error level, with status 503 and 2 ms.
\<close>

theorem completion_event_witness:
  "(\<lambda>r. \<lparr>calls = [CallWriteHeader 503, CallWrite [1]], logged = [], elapsed = 2999999, panicked = False\<rparr>)
      (\<lparr>Method = ''GET'', URL_Path = ''/hello'', RemoteAddr = ''10.0.0.1:4000'', Header = Map.empty,
        Context = \<lparr>ctxValues = [], ctxTimeout = None\<rparr>\<rparr>
       \<lparr>Context := WithValue \<lparr>ctxValues = [], ctxTimeout = None\<rparr> loggerKey
                      (ALogger (WithContext (NewLogger ''svc'' False) \<lparr>ctxValues = [], ctxTimeout = None\<rparr>))\<rparr>)
     = \<lparr>calls = [CallWriteHeader 503, CallWrite [1]], logged = [], elapsed = 2999999, panicked = False\<rparr>
   \<and> \<not> panicked \<lparr>calls = [CallWriteHeader 503, CallWrite [1]], logged = [], elapsed = 2999999, panicked = False\<rparr>
   \<and> 0 \<le> elapsed \<lparr>calls = [CallWriteHeader 503, CallWrite [1]], logged = [], elapsed = 2999999, panicked = False\<rparr>
   \<and> levelNum (zl_level (Logger (NewLogger ''svc'' False))) \<le> levelNum InfoLevel
   \<and> lr_out (Logger_Middleware (NewLogger ''svc'' False)
         (\<lambda>r. \<lparr>calls = [CallWriteHeader 503, CallWrite [1]], logged = [], elapsed = 2999999, panicked = False\<rparr>)
         []
         \<lparr>Method = ''GET'', URL_Path = ''/hello'', RemoteAddr = ''10.0.0.1:4000'', Header = Map.empty,
          Context = \<lparr>ctxValues = [], ctxTimeout = None\<rparr>\<rparr> [])
     = [\<lparr>ev_level = ErrorLevel,
         ev_fields = [FTimestamp, FStr ''service'' ''svc'', FStr ''http.method'' ''GET'',
                      FStr ''http.path'' ''/hello'', FInt ''http.status'' 503, FInt64 ''duration_ms'' 2],
         ev_message = ''request completed''\<rparr>]"
  using completion_event [where l = "NewLogger ''svc'' False"
      and h = "\<lparr>calls = [CallWriteHeader 503, CallWrite [1]], logged = [], elapsed = 2999999, panicked = False\<rparr>"
      and nxt = "\<lambda>r. \<lparr>calls = [CallWriteHeader 503, CallWrite [1]], logged = [], elapsed = 2999999, panicked = False\<rparr>"
      and w = "[]" and out = "[]"
      and r = "\<lparr>Method = ''GET'', URL_Path = ''/hello'', RemoteAddr = ''10.0.0.1:4000'', Header = Map.empty,
          Context = \<lparr>ctxValues = [], ctxTimeout = None\<rparr>\<rparr>"]
  by (simp add: Let_def NewLogger_def WithContext_def Value_def Msg_def WriteHeader_def Write_def)
section \<open>Properties of the metrics middleware\<close>

lemma Itoa_200: "Itoa 200 = ''200''" by code_simp
lemma Itoa_404: "Itoa 404 = ''404''" by code_simp
lemma spec_statusClass_404: "spec_statusClass 404 = ''4''" by code_simp

lemma ValidString_ascii: "(\<And>c. c \<in> set s \<Longrightarrow> (of_char c :: nat) < 128) \<Longrightarrow> ValidString s"
  by (induction s) simp_all

lemma formatNat_ascii: "c \<in> set (formatNat n) \<Longrightarrow> (of_char c :: nat) < 128"
proof (induction n rule: formatNat.induct)
  case (1 n)
  show ?case
  proof (cases "n < 10")
    case True
    with "1.prems" show ?thesis
      by (simp add: formatNat.simps [of n])
  next
    case False
    have "n mod 10 < 10" by simp
    then have "(48 + n mod 10) mod 256 < 128" by linarith
    with False "1.prems" "1.IH" show ?thesis
      by (auto simp: formatNat.simps [of n])
  qed
qed

lemma ValidString_Itoa: "ValidString (Itoa i)"
  by (rule ValidString_ascii) (auto simp: Itoa_def split: if_splits dest: formatNat_ascii)

lemma valid_GET: "ValidString ''GET''" by code_simp
lemma valid_POST: "ValidString ''POST''" by code_simp
lemma valid_hello: "ValidString ''/hello''" by code_simp
lemma valid_users: "ValidString ''/users''" by code_simp
lemma valid_users_42: "ValidString ''/users/42''" by code_simp
lemma valid_users_id: "ValidString ''/users/{id}''" by code_simp
lemma invalid_ff: "\<not> ValidString [CHR ''/'', CHR 0xFF]" by code_simp

lemma Collector_Middleware_instrumented:
  assumes "URL_Path r \<noteq> ''/metrics''"
    and "ValidString (Method r)"
    and "ValidString (case RouteContext (Context r) of
                        Some p \<Rightarrow> if p \<noteq> '''' then p else URL_Path r
                      | None \<Rightarrow> URL_Path r)"
  shows "mr_collector (Collector_Middleware c nxt w r) =
           c\<lparr>requestsTotal := CounterVec_Inc (requestsTotal c)
                  [Method r,
                   (case RouteContext (Context r) of
                      Some p \<Rightarrow> if p \<noteq> '''' then p else URL_Path r
                    | None \<Rightarrow> URL_Path r),
                   Itoa (statusCode (serveCalls \<lparr>ResponseWriter = w, statusCode = StatusOK, written = False\<rparr>
                                       (calls (nxt r))))],
              requestDuration := HistogramVec_Observe (requestDuration c)
                  [Method r,
                   (case RouteContext (Context r) of
                      Some p \<Rightarrow> if p \<noteq> '''' then p else URL_Path r
                    | None \<Rightarrow> URL_Path r)]
                  (elapsed (nxt r))\<rparr>
         \<and> mr_panicked (Collector_Middleware c nxt w r) = panicked (nxt r)"
  using assms by (simp add: Collector_Middleware_def Let_def validateLabelValues_def ValidString_Itoa)

text \<open>
  When the method or the path label is not valid UTF-8, \<^verbatim>\<open>WithLabelValues\<close> panics in
  the deferred function: the collector is as before the request (the gauge went up and
  down again) and the panic passes through. A \<^verbatim>\<open>GET\<close> whose path is the two bytes
  \<open>/\<close> and 255, without route context, is such a request.
\<close>

lemma Collector_Middleware_refused:
  assumes "URL_Path r \<noteq> ''/metrics''"
    and "\<not> (ValidString (Method r)
            \<and> ValidString (case RouteContext (Context r) of
                              Some p \<Rightarrow> if p \<noteq> '''' then p else URL_Path r
                            | None \<Rightarrow> URL_Path r))"
  shows "mr_collector (Collector_Middleware c nxt w r) = c
         \<and> mr_panicked (Collector_Middleware c nxt w r)"
  using assms by (auto simp: Collector_Middleware_def Let_def validateLabelValues_def)

lemma Collector_Middleware_refused_example:
  "mr_collector (Collector_Middleware c nxt w
       \<lparr>Method = ''GET'', URL_Path = [CHR ''/'', CHR 0xFF], RemoteAddr = ''10.0.0.1:4000'',
        Header = Map.empty, Context = \<lparr>ctxValues = [], ctxTimeout = None\<rparr>\<rparr>) = c
   \<and> mr_panicked (Collector_Middleware c nxt w
       \<lparr>Method = ''GET'', URL_Path = [CHR ''/'', CHR 0xFF], RemoteAddr = ''10.0.0.1:4000'',
        Header = Map.empty, Context = \<lparr>ctxValues = [], ctxTimeout = None\<rparr>\<rparr>)"
  by (rule Collector_Middleware_refused) (simp_all add: RouteContext_def Value_def invalid_ff)

text \<open>
  Claim C3, as stated, says the status label is the status class. The code passes
  \<^verbatim>\<open>strconv.Itoa(ww.statusCode)\<close>: for a handler that answers 404 to \<^verbatim>\<open>GET /hello\<close>, on
  a collector whose series are all zero, the series with status label \<open>4\<close> (the status
  class of 404) is still zero and the series with status label \<open>404\<close> is one.
\<close>

theorem status_label_not_class:
  "requestsTotal (mr_collector (Collector_Middleware
       \<lparr>requestsTotal = (\<lambda>lvs. 0), requestDuration = (\<lambda>lvs. []), requestsInFlight = 0,
        errorsTotal = (\<lambda>lvs. 0)\<rparr>
       (\<lambda>r. \<lparr>calls = [CallWriteHeader 404], logged = [], elapsed = 1500000, panicked = False\<rparr>)
       []
       \<lparr>Method = ''GET'', URL_Path = ''/hello'', RemoteAddr = ''10.0.0.1:4000'', Header = Map.empty,
        Context = \<lparr>ctxValues = [], ctxTimeout = None\<rparr>\<rparr>))
     [''GET'', ''/hello'', spec_statusClass 404] = 0
   \<and> requestsTotal (mr_collector (Collector_Middleware
       \<lparr>requestsTotal = (\<lambda>lvs. 0), requestDuration = (\<lambda>lvs. []), requestsInFlight = 0,
        errorsTotal = (\<lambda>lvs. 0)\<rparr>
       (\<lambda>r. \<lparr>calls = [CallWriteHeader 404], logged = [], elapsed = 1500000, panicked = False\<rparr>)
       []
       \<lparr>Method = ''GET'', URL_Path = ''/hello'', RemoteAddr = ''10.0.0.1:4000'', Header = Map.empty,
        Context = \<lparr>ctxValues = [], ctxTimeout = None\<rparr>\<rparr>))
     [''GET'', ''/hello'', ''404''] = 1"
  by (simp add: Collector_Middleware_def Let_def RouteContext_def Value_def CounterVec_Inc_def
        WriteHeader_def Itoa_404 spec_statusClass_404 validateLabelValues_def valid_GET valid_hello
        ValidString_Itoa [of 404, unfolded Itoa_404])

text \<open>
  Claim C3, amended. For a request whose path is not \<^verbatim>\<open>/metrics\<close> and whose method and
  path label are valid UTF-8, the request counter goes up by one on the series whose
  status label is the recorded status code printed in full in base 10, and on no other
  series. The recorded status is the wrapper's \<^verbatim>\<open>statusCode\<close> after the handler's calls;
  the path label is the route pattern when there is a non-empty one and the request
  path otherwise. The status label itself is always valid (\<open>ValidString_Itoa\<close>).
\<close>

theorem status_label_full_code:
  assumes "URL_Path r \<noteq> ''/metrics''"
    and "ValidString (Method r)"
    and "ValidString (case RouteContext (Context r) of
                        Some p \<Rightarrow> if p \<noteq> '''' then p else URL_Path r
                      | None \<Rightarrow> URL_Path r)"
  shows "let s = statusCode (serveCalls \<lparr>ResponseWriter = w, statusCode = StatusOK, written = False\<rparr>
                               (calls (nxt r)));
             path = (case RouteContext (Context r) of
                       Some p \<Rightarrow> if p \<noteq> '''' then p else URL_Path r
                     | None \<Rightarrow> URL_Path r);
             c' = mr_collector (Collector_Middleware c nxt w r)
         in requestsTotal c' [Method r, path, Itoa s] = requestsTotal c [Method r, path, Itoa s] + 1
          \<and> (\<forall>lvs. lvs \<noteq> [Method r, path, Itoa s] \<longrightarrow> requestsTotal c' lvs = requestsTotal c lvs)"
  by (simp add: Collector_Middleware_instrumented [OF assms] Let_def CounterVec_Inc_def)

text \<open>
  A \<^verbatim>\<open>POST /users\<close> answered with 404: the series labelled \<open>404\<close> is one, the series
  labelled \<open>4\<close> stays zero.
\<close>

theorem status_label_full_code_witness:
  "URL_Path \<lparr>Method = ''POST'', URL_Path = ''/users'', RemoteAddr = ''10.0.0.1:4000'', Header = Map.empty,
        Context = \<lparr>ctxValues = [], ctxTimeout = None\<rparr>\<rparr> \<noteq> ''/metrics''
   \<and> ValidString ''POST'' \<and> ValidString ''/users''
   \<and> requestsTotal (mr_collector (Collector_Middleware
       \<lparr>requestsTotal = (\<lambda>lvs. 0), requestDuration = (\<lambda>lvs. []), requestsInFlight = 0,
        errorsTotal = (\<lambda>lvs. 0)\<rparr>
       (\<lambda>r. \<lparr>calls = [CallWriteHeader 404, CallWrite [1]], logged = [], elapsed = 1500000, panicked = False\<rparr>)
       []
       \<lparr>Method = ''POST'', URL_Path = ''/users'', RemoteAddr = ''10.0.0.1:4000'', Header = Map.empty,
        Context = \<lparr>ctxValues = [], ctxTimeout = None\<rparr>\<rparr>))
     [''POST'', ''/users'', ''404''] = 1
   \<and> requestsTotal (mr_collector (Collector_Middleware
       \<lparr>requestsTotal = (\<lambda>lvs. 0), requestDuration = (\<lambda>lvs. []), requestsInFlight = 0,
        errorsTotal = (\<lambda>lvs. 0)\<rparr>
       (\<lambda>r. \<lparr>calls = [CallWriteHeader 404, CallWrite [1]], logged = [], elapsed = 1500000, panicked = False\<rparr>)
       []
       \<lparr>Method = ''POST'', URL_Path = ''/users'', RemoteAddr = ''10.0.0.1:4000'', Header = Map.empty,
        Context = \<lparr>ctxValues = [], ctxTimeout = None\<rparr>\<rparr>))
     [''POST'', ''/users'', ''4''] = 0"
  using status_label_full_code [where c = "\<lparr>requestsTotal = (\<lambda>lvs. 0), requestDuration = (\<lambda>lvs. []),
        requestsInFlight = 0, errorsTotal = (\<lambda>lvs. 0)\<rparr>"
      and nxt = "\<lambda>r. \<lparr>calls = [CallWriteHeader 404, CallWrite [1]], logged = [], elapsed = 1500000, panicked = False\<rparr>"
      and w = "[]"
      and r = "\<lparr>Method = ''POST'', URL_Path = ''/users'', RemoteAddr = ''10.0.0.1:4000'', Header = Map.empty,
        Context = \<lparr>ctxValues = [], ctxTimeout = None\<rparr>\<rparr>"]
  by (simp add: Let_def RouteContext_def Value_def WriteHeader_def Write_def Itoa_404 valid_POST valid_users)

text \<open>
  Claim C9, as stated, says the path label is never the raw request path, unmatched
  routes included. When the route context has no pattern, as for a request no route
  matches, the code falls back to \<^verbatim>\<open>r.URL.Path\<close>: \<^verbatim>\<open>GET /users/42\<close> with an empty route
  pattern is counted and timed under the path label \<open>/users/42\<close>.
\<close>

theorem raw_path_in_label:
  "RouteContext (Context
       \<lparr>Method = ''GET'', URL_Path = ''/users/42'', RemoteAddr = ''10.0.0.1:4000'', Header = Map.empty,
        Context = \<lparr>ctxValues = [(RouteCtxKey, AChiContext '''')], ctxTimeout = None\<rparr>\<rparr>) = Some ''''
   \<and> requestsTotal (mr_collector (Collector_Middleware
       \<lparr>requestsTotal = (\<lambda>lvs. 0), requestDuration = (\<lambda>lvs. []), requestsInFlight = 0,
        errorsTotal = (\<lambda>lvs. 0)\<rparr>
       (\<lambda>r. \<lparr>calls = [CallWriteHeader 404], logged = [], elapsed = 1500000, panicked = False\<rparr>)
       []
       \<lparr>Method = ''GET'', URL_Path = ''/users/42'', RemoteAddr = ''10.0.0.1:4000'', Header = Map.empty,
        Context = \<lparr>ctxValues = [(RouteCtxKey, AChiContext '''')], ctxTimeout = None\<rparr>\<rparr>))
     [''GET'', ''/users/42'', ''404''] = 1
   \<and> requestDuration (mr_collector (Collector_Middleware
       \<lparr>requestsTotal = (\<lambda>lvs. 0), requestDuration = (\<lambda>lvs. []), requestsInFlight = 0,
        errorsTotal = (\<lambda>lvs. 0)\<rparr>
       (\<lambda>r. \<lparr>calls = [CallWriteHeader 404], logged = [], elapsed = 1500000, panicked = False\<rparr>)
       []
       \<lparr>Method = ''GET'', URL_Path = ''/users/42'', RemoteAddr = ''10.0.0.1:4000'', Header = Map.empty,
        Context = \<lparr>ctxValues = [(RouteCtxKey, AChiContext '''')], ctxTimeout = None\<rparr>\<rparr>))
     [''GET'', ''/users/42''] = [1500000]"
  by (simp add: Collector_Middleware_def Let_def RouteContext_def Value_def CounterVec_Inc_def
        HistogramVec_Observe_def WriteHeader_def Itoa_404 validateLabelValues_def valid_GET
        valid_users_42 ValidString_Itoa [of 404, unfolded Itoa_404])

text \<open>
  Claim C9, amended. A request whose path is \<^verbatim>\<open>/metrics\<close> leaves the collector as it
  was. For any other request the in-flight gauge is back at its value from before the
  request, and, when the method and the path label are valid UTF-8, the counter and the
  histogram get the route pattern as path label when chi's route context is there and
  its pattern is not empty, and the raw request path when there is no route context or
  its pattern is empty.
\<close>

theorem path_label_and_self_exclusion:
  "(URL_Path r = ''/metrics'' \<longrightarrow> mr_collector (Collector_Middleware c nxt w r) = c)
   \<and> (URL_Path r \<noteq> ''/metrics'' \<longrightarrow>
        (let s = statusCode (serveCalls \<lparr>ResponseWriter = w, statusCode = StatusOK, written = False\<rparr>
                               (calls (nxt r)));
             c' = mr_collector (Collector_Middleware c nxt w r)
         in requestsInFlight c' = requestsInFlight c
          \<and> (\<forall>p. ValidString (Method r) \<and> RouteContext (Context r) = Some p \<and> p \<noteq> '''' \<and> ValidString p \<longrightarrow>
                requestsTotal c' = CounterVec_Inc (requestsTotal c) [Method r, p, Itoa s]
              \<and> requestDuration c' = HistogramVec_Observe (requestDuration c) [Method r, p] (elapsed (nxt r)))
          \<and> (ValidString (Method r) \<and> ValidString (URL_Path r)
              \<and> (RouteContext (Context r) = None \<or> RouteContext (Context r) = Some '''') \<longrightarrow>
                requestsTotal c' = CounterVec_Inc (requestsTotal c) [Method r, URL_Path r, Itoa s]
              \<and> requestDuration c' =
                  HistogramVec_Observe (requestDuration c) [Method r, URL_Path r] (elapsed (nxt r)))))"
proof (cases "URL_Path r = ''/metrics''")
  case True
  then show ?thesis by (simp add: Collector_Middleware_def Let_def)
next
  case False
  let ?path = "case RouteContext (Context r) of
                 Some p \<Rightarrow> if p \<noteq> '''' then p else URL_Path r
               | None \<Rightarrow> URL_Path r"
  show ?thesis
  proof (cases "ValidString (Method r) \<and> ValidString ?path")
    case True
    then have m: "ValidString (Method r)" and p: "ValidString ?path" by simp_all
    show ?thesis
      using False by (auto simp: Collector_Middleware_instrumented [OF False m p] Let_def)
  next
    case refused: False
    have same: "mr_collector (Collector_Middleware c nxt w r) = c"
      using Collector_Middleware_refused [OF False refused] by simp
    show ?thesis
      using False refused by (auto simp: same Let_def)
  qed
qed

text \<open>
  A request to \<^verbatim>\<open>/metrics\<close> changes nothing; \<^verbatim>\<open>GET /users/42\<close> matched by the route
  \<^verbatim>\<open>/users/{id}\<close> is counted under the pattern.
\<close>

theorem path_label_and_self_exclusion_witness:
  "URL_Path \<lparr>Method = ''GET'', URL_Path = ''/metrics'', RemoteAddr = ''10.0.0.1:4000'', Header = Map.empty,
        Context = \<lparr>ctxValues = [], ctxTimeout = None\<rparr>\<rparr> = ''/metrics''
   \<and> mr_collector (Collector_Middleware
       \<lparr>requestsTotal = (\<lambda>lvs. 0), requestDuration = (\<lambda>lvs. []), requestsInFlight = 0,
        errorsTotal = (\<lambda>lvs. 0)\<rparr>
       (\<lambda>r. \<lparr>calls = [CallWrite [1]], logged = [], elapsed = 1500000, panicked = False\<rparr>)
       []
       \<lparr>Method = ''GET'', URL_Path = ''/metrics'', RemoteAddr = ''10.0.0.1:4000'', Header = Map.empty,
        Context = \<lparr>ctxValues = [], ctxTimeout = None\<rparr>\<rparr>)
     = \<lparr>requestsTotal = (\<lambda>lvs. 0), requestDuration = (\<lambda>lvs. []), requestsInFlight = 0,
        errorsTotal = (\<lambda>lvs. 0)\<rparr>
   \<and> URL_Path \<lparr>Method = ''GET'', URL_Path = ''/users/42'', RemoteAddr = ''10.0.0.1:4000'', Header = Map.empty,
        Context = \<lparr>ctxValues = [(RouteCtxKey, AChiContext ''/users/{id}'')], ctxTimeout = None\<rparr>\<rparr>
       \<noteq> ''/metrics''
   \<and> ValidString ''GET'' \<and> ValidString ''/users/{id}''
   \<and> RouteContext (Context \<lparr>Method = ''GET'', URL_Path = ''/users/42'', RemoteAddr = ''10.0.0.1:4000'',
        Header = Map.empty,
        Context = \<lparr>ctxValues = [(RouteCtxKey, AChiContext ''/users/{id}'')], ctxTimeout = None\<rparr>\<rparr>)
       = Some ''/users/{id}''
   \<and> requestsTotal (mr_collector (Collector_Middleware
       \<lparr>requestsTotal = (\<lambda>lvs. 0), requestDuration = (\<lambda>lvs. []), requestsInFlight = 0,
        errorsTotal = (\<lambda>lvs. 0)\<rparr>
       (\<lambda>r. \<lparr>calls = [CallWrite [1]], logged = [], elapsed = 1500000, panicked = False\<rparr>)
       []
       \<lparr>Method = ''GET'', URL_Path = ''/users/42'', RemoteAddr = ''10.0.0.1:4000'', Header = Map.empty,
        Context = \<lparr>ctxValues = [(RouteCtxKey, AChiContext ''/users/{id}'')], ctxTimeout = None\<rparr>\<rparr>))
     = CounterVec_Inc (\<lambda>lvs. 0) [''GET'', ''/users/{id}'', ''200'']"
  using path_label_and_self_exclusion [where c = "\<lparr>requestsTotal = (\<lambda>lvs. 0), requestDuration = (\<lambda>lvs. []),
        requestsInFlight = 0, errorsTotal = (\<lambda>lvs. 0)\<rparr>"
      and nxt = "\<lambda>r. \<lparr>calls = [CallWrite [1]], logged = [], elapsed = 1500000, panicked = False\<rparr>"
      and w = "[]"
      and r = "\<lparr>Method = ''GET'', URL_Path = ''/metrics'', RemoteAddr = ''10.0.0.1:4000'', Header = Map.empty,
        Context = \<lparr>ctxValues = [], ctxTimeout = None\<rparr>\<rparr>"]
    path_label_and_self_exclusion [where c = "\<lparr>requestsTotal = (\<lambda>lvs. 0), requestDuration = (\<lambda>lvs. []),
        requestsInFlight = 0, errorsTotal = (\<lambda>lvs. 0)\<rparr>"
      and nxt = "\<lambda>r. \<lparr>calls = [CallWrite [1]], logged = [], elapsed = 1500000, panicked = False\<rparr>"
      and w = "[]"
      and r = "\<lparr>Method = ''GET'', URL_Path = ''/users/42'', RemoteAddr = ''10.0.0.1:4000'', Header = Map.empty,
        Context = \<lparr>ctxValues = [(RouteCtxKey, AChiContext ''/users/{id}'')], ctxTimeout = None\<rparr>\<rparr>"]
  by (simp add: Let_def RouteContext_def Value_def WriteHeader_def Write_def StatusOK_def Itoa_200
        valid_GET valid_users_id)

text \<open>
  Claim C10. A handler that returns without a call to \<^verbatim>\<open>WriteHeader\<close> or \<^verbatim>\<open>Write\<close>:
  the logging middleware's completion event is the last event written, at
  informational level with \<open>http.status\<close> 0, and the metrics middleware counts the
  request on the series with status label \<open>200\<close>. The logger's minimum level is debug
  or informational; for the counter, the path is not \<^verbatim>\<open>/metrics\<close> and the method and
  the path label are valid UTF-8, so that \<^verbatim>\<open>WithLabelValues\<close> accepts them.
\<close>

theorem default_status_differs:
  assumes enabled: "levelNum (zl_level (Logger l)) \<le> levelNum InfoLevel"
    and instrumented: "URL_Path r \<noteq> ''/metrics''"
    and valid_m: "ValidString (Method r)"
    and valid_p: "ValidString (case RouteContext (Context r) of
                               Some p \<Rightarrow> if p \<noteq> '''' then p else URL_Path r
                             | None \<Rightarrow> URL_Path r)"
  shows "let h = \<lparr>calls = [], logged = evs, elapsed = d, panicked = False\<rparr>;
             logger = WithContext l (Context r);
             path = (case RouteContext (Context r) of
                       Some p \<Rightarrow> if p \<noteq> '''' then p else URL_Path r
                     | None \<Rightarrow> URL_Path r)
         in lr_out (Logger_Middleware l (\<lambda>r. h) w r out) \<noteq> []
          \<and> last (lr_out (Logger_Middleware l (\<lambda>r. h) w r out)) =
              \<lparr>ev_level = InfoLevel,
               ev_fields = zl_context logger @
                 [FStr ''http.method'' (Method r), FStr ''http.path'' (URL_Path r),
                  FInt ''http.status'' 0, FInt64 ''duration_ms'' (Milliseconds d)],
               ev_message = ''request completed''\<rparr>
          \<and> requestsTotal (mr_collector (Collector_Middleware c (\<lambda>r. h) w r)) =
              CounterVec_Inc (requestsTotal c) [Method r, path, ''200'']"
proof -
  have lv: "levelNum (zl_level (WithContext l (Context r))) \<le> 1"
    using enabled by (simp add: WithContext_level)
  have a: "lr_out (Logger_Middleware l (\<lambda>r. \<lparr>calls = [], logged = evs, elapsed = d, panicked = False\<rparr>) w r out)
             = Msg (WithContext l (Context r)) DebugLevel
                 [FStr ''http.method'' (Method r), FStr ''http.path'' (URL_Path r),
                  FStr ''http.remote_addr'' (RemoteAddr r)] ''request started'' out
               @ evs
               @ [\<lparr>ev_level = InfoLevel,
                   ev_fields = zl_context (WithContext l (Context r)) @
                     [FStr ''http.method'' (Method r), FStr ''http.path'' (URL_Path r),
                      FInt ''http.status'' 0, FInt64 ''duration_ms'' (Milliseconds d)],
                   ev_message = ''request completed''\<rparr>]"
    using lv by (simp add: Logger_Middleware_def Let_def Msg_def)
  have b: "requestsTotal (mr_collector (Collector_Middleware c
              (\<lambda>r. \<lparr>calls = [], logged = evs, elapsed = d, panicked = False\<rparr>) w r)) =
            CounterVec_Inc (requestsTotal c)
              [Method r,
               (case RouteContext (Context r) of
                  Some p \<Rightarrow> if p \<noteq> '''' then p else URL_Path r
                | None \<Rightarrow> URL_Path r), ''200'']"
    by (simp add: Collector_Middleware_instrumented [OF instrumented valid_m valid_p] StatusOK_def Itoa_200)
  show ?thesis
    unfolding Let_def by (simp only: a b) simp
qed

text \<open>
  \<^verbatim>\<open>GET /hello\<close> with a handler that writes nothing: status 0 in the log, one request
  under \<open>200\<close> in the counter.
\<close>

theorem default_status_differs_witness:
  "levelNum (zl_level (Logger (NewLogger ''svc'' False))) \<le> levelNum InfoLevel
   \<and> URL_Path \<lparr>Method = ''GET'', URL_Path = ''/hello'', RemoteAddr = ''10.0.0.1:4000'', Header = Map.empty,
        Context = \<lparr>ctxValues = [], ctxTimeout = None\<rparr>\<rparr> \<noteq> ''/metrics''
   \<and> ValidString ''GET'' \<and> ValidString ''/hello''
   \<and> last (lr_out (Logger_Middleware (NewLogger ''svc'' False)
         (\<lambda>r. \<lparr>calls = [], logged = [], elapsed = 1500000, panicked = False\<rparr>) []
         \<lparr>Method = ''GET'', URL_Path = ''/hello'', RemoteAddr = ''10.0.0.1:4000'', Header = Map.empty,
          Context = \<lparr>ctxValues = [], ctxTimeout = None\<rparr>\<rparr> []))
     = \<lparr>ev_level = InfoLevel,
        ev_fields = [FTimestamp, FStr ''service'' ''svc'', FStr ''http.method'' ''GET'',
                     FStr ''http.path'' ''/hello'', FInt ''http.status'' 0, FInt64 ''duration_ms'' 1],
        ev_message = ''request completed''\<rparr>
   \<and> requestsTotal (mr_collector (Collector_Middleware
         \<lparr>requestsTotal = (\<lambda>lvs. 0), requestDuration = (\<lambda>lvs. []), requestsInFlight = 0,
          errorsTotal = (\<lambda>lvs. 0)\<rparr>
         (\<lambda>r. \<lparr>calls = [], logged = [], elapsed = 1500000, panicked = False\<rparr>) []
         \<lparr>Method = ''GET'', URL_Path = ''/hello'', RemoteAddr = ''10.0.0.1:4000'', Header = Map.empty,
          Context = \<lparr>ctxValues = [], ctxTimeout = None\<rparr>\<rparr>))
       [''GET'', ''/hello'', ''200''] = 1"
  using default_status_differs [where l = "NewLogger ''svc'' False"
      and c = "\<lparr>requestsTotal = (\<lambda>lvs. 0), requestDuration = (\<lambda>lvs. []),
        requestsInFlight = 0, errorsTotal = (\<lambda>lvs. 0)\<rparr>"
      and evs = "[]" and d = 1500000 and w = "[]" and out = "[]"
      and r = "\<lparr>Method = ''GET'', URL_Path = ''/hello'', RemoteAddr = ''10.0.0.1:4000'', Header = Map.empty,
          Context = \<lparr>ctxValues = [], ctxTimeout = None\<rparr>\<rparr>"]
  by (simp add: Let_def NewLogger_def WithContext_def Value_def RouteContext_def CounterVec_Inc_def
        Milliseconds_def signed_divide_int_def valid_GET valid_hello)
section \<open>Properties of the readiness handler\<close>

lemma checkLoop_probeReturns:
  "checkLoop nameOf cs ctx results allOK world = (results', allOK', world') \<Longrightarrow>
     map (\<lambda>c. (cr_Status c, cr_Error c)) results' =
       map (\<lambda>c. (cr_Status c, cr_Error c)) results @ map resultOf (probeReturns cs ctx world)
     \<and> allOK' = (allOK \<and> list_all (\<lambda>e. e = None) (probeReturns cs ctx world))
     \<and> map cr_Name results' =
         map cr_Name results @ map (\<lambda>c. case nameOf c of Some n \<Rightarrow> n | None \<Rightarrow> ''dependency'') cs"
proof (induction cs arbitrary: results allOK world)
  case Nil
  then show ?case by auto
next
  case (Cons chk rest)
  obtain err w1 where step: "chk ctx world = (err, w1)"
    by (cases "chk ctx world")
  define nm where "nm = (case nameOf chk of Some n \<Rightarrow> n | None \<Rightarrow> ''dependency'')"
  show ?case
  proof (cases err)
    case None
    with Cons.prems step have
      "checkLoop nameOf rest ctx (results @ [\<lparr>cr_Name = nm, cr_Status = ''ok'', cr_Error = ''''\<rparr>]) allOK w1
         = (results', allOK', world')"
      by (simp add: nm_def)
    from Cons.IH [OF this] show ?thesis
      using step None by (simp add: nm_def)
  next
    case (Some e)
    with Cons.prems step have
      "checkLoop nameOf rest ctx (results @ [\<lparr>cr_Name = nm, cr_Status = ''error'', cr_Error = e\<rparr>]) False w1
         = (results', allOK', world')"
      by (simp add: nm_def)
    from Cons.IH [OF this] show ?thesis
      using step Some by (simp add: nm_def)
  qed
qed

lemma readiness_names:
  "map cr_Name (hr_Checks (rr_response (fst (ReadinessHandler nameOf checkers w r world))))
     = map (\<lambda>c. case nameOf c of Some n \<Rightarrow> n | None \<Rightarrow> ''dependency'') checkers"
proof -
  obtain results allOK world' where
    loop: "checkLoop nameOf checkers (WithTimeout (Context r) (5 * Second)) [] True world
             = (results, allOK, world')"
    by (cases "checkLoop nameOf checkers (WithTimeout (Context r) (5 * Second)) [] True world") auto
  from checkLoop_probeReturns [OF loop]
  have "map cr_Name results = map (\<lambda>c. case nameOf c of Some n \<Rightarrow> n | None \<Rightarrow> ''dependency'') checkers"
    by simp
  then show ?thesis
    by (simp add: ReadinessHandler_def Let_def loop)
qed

text \<open>
  On claim C4. The source has no run in which a result carries a probe's name: the
  statement that looks the name up is the one the compiler refuses, so package health
  does not build. The constructors also put the name out of reach of any lookup made
  on the checker alone: \<^verbatim>\<open>CustomChecker(name, f)\<close> returns the method value \<^verbatim>\<open>nc.Call\<close>,
  which as a \<^verbatim>\<open>Checker\<close> is the function \<open>f\<close> whatever the name, so for every \<open>nameOf\<close>
  two checkers registered under different names around the same function get the same
  name in the response, and at most one of them its own.
\<close>

lemma CustomChecker_forgets_name: "CustomChecker a f = CustomChecker b f"
  by (simp add: CustomChecker_def Call_def fun_eq_iff)

lemma registered_name_unreachable:
  assumes "a \<noteq> b"
  shows "\<not> (map cr_Name (hr_Checks (rr_response (fst (ReadinessHandler nameOf [CustomChecker a f] w r world)))) = [a]
          \<and> map cr_Name (hr_Checks (rr_response (fst (ReadinessHandler nameOf [CustomChecker b f] w r world)))) = [b])"
  using assms by (simp add: readiness_names CustomChecker_forgets_name [of a f b])

text \<open>
  Claim C6. With \<open>errs\<close> the errors the probes return, in registration order: the
  status code is 200 and the body status \<open>ok\<close> exactly when every probe returns nil;
  when some probe returns an error they are 503 and \<open>error\<close>; the array of checks has
  one entry for each probe, in registration order, with status \<open>ok\<close> for a probe that
  returned nil, and status \<open>error\<close> and the probe's message for a probe that returned
  an error. This holds whatever the lookup of the names yields.
\<close>

theorem readiness_verdict:
  "case ReadinessHandler nameOf checkers w r world of
     (res, world') \<Rightarrow>
       (let errs = probeReturns checkers (WithTimeout (Context r) (5 * Second)) world
        in ((rr_statusCode res = 200 \<and> hr_Status (rr_response res) = ''ok'') \<longleftrightarrow> (\<forall>e \<in> set errs. e = None))
         \<and> ((\<exists>e \<in> set errs. e \<noteq> None) \<longrightarrow>
               rr_statusCode res = 503 \<and> hr_Status (rr_response res) = ''error'')
         \<and> length (hr_Checks (rr_response res)) = length checkers
         \<and> (\<forall>i < length checkers.
               (errs ! i = None \<longrightarrow>
                  cr_Status (hr_Checks (rr_response res) ! i) = ''ok'')
             \<and> (\<forall>msg. errs ! i = Some msg \<longrightarrow>
                  cr_Status (hr_Checks (rr_response res) ! i) = ''error''
                  \<and> cr_Error (hr_Checks (rr_response res) ! i) = msg)))"
proof -
  let ?ctx = "WithTimeout (Context r) (5 * Second)"
  let ?errs = "probeReturns checkers ?ctx world"
  obtain results allOK world' where loop: "checkLoop nameOf checkers ?ctx [] True world = (results, allOK, world')"
    by (cases "checkLoop nameOf checkers ?ctx [] True world") auto
  from checkLoop_probeReturns [OF loop]
  have m: "map (\<lambda>c. (cr_Status c, cr_Error c)) results = map resultOf ?errs"
    and ok: "allOK = list_all (\<lambda>e. e = None) ?errs"
    by simp_all
  have len: "length results = length ?errs"
    using m by (metis length_map)
  have lenc: "length ?errs = length checkers"
    by (induction checkers arbitrary: world) (simp_all split: prod.splits)
  have nth: "(cr_Status (results ! i), cr_Error (results ! i)) = resultOf (?errs ! i)" if "i < length checkers" for i
  proof -
    have "map (\<lambda>c. (cr_Status c, cr_Error c)) results ! i = map resultOf ?errs ! i"
      using m by simp
    then show ?thesis using that len lenc by simp
  qed
  have res: "ReadinessHandler nameOf checkers w r world =
      (\<lparr>rr_header = Header_Set w ''Content-Type'' ''application/json'',
        rr_statusCode = (if allOK then 200 else 503),
        rr_response = \<lparr>hr_Status = (if allOK then ''ok'' else ''error''), hr_Checks = results\<rparr>\<rparr>, world')"
    by (simp add: ReadinessHandler_def Let_def loop StatusOK_def StatusServiceUnavailable_def)
  have entries: "\<forall>i < length checkers.
               (?errs ! i = None \<longrightarrow> cr_Status (results ! i) = ''ok'')
             \<and> (\<forall>msg. ?errs ! i = Some msg \<longrightarrow>
                  cr_Status (results ! i) = ''error'' \<and> cr_Error (results ! i) = msg)"
  proof (intro allI impI)
    fix i assume "i < length checkers"
    from nth [OF this] show "(?errs ! i = None \<longrightarrow> cr_Status (results ! i) = ''ok'')
             \<and> (\<forall>msg. ?errs ! i = Some msg \<longrightarrow>
                  cr_Status (results ! i) = ''error'' \<and> cr_Error (results ! i) = msg)"
      by (cases "?errs ! i") auto
  qed
  show ?thesis
    using entries len lenc ok by (auto simp: res Let_def list_all_iff)
qed

text \<open>
  Two probes, the first returning nil and the second the error \<open>db down\<close>: 503,
  \<open>error\<close>, and the two entries in that order. Two probes returning nil: 200 and
  \<open>ok\<close>.
\<close>

theorem readiness_verdict_witness:
  "(case ReadinessHandler (\<lambda>c. None)
          [(\<lambda>ctx w. (None, w)), (\<lambda>ctx w. (Some ''db down'', w))] Map.empty
          \<lparr>Method = ''GET'', URL_Path = ''/readyz'', RemoteAddr = ''10.0.0.1:4000'', Header = Map.empty,
           Context = \<lparr>ctxValues = [], ctxTimeout = None\<rparr>\<rparr> (0::nat) of
      (res, world') \<Rightarrow>
        (\<exists>e \<in> set (probeReturns [(\<lambda>ctx w. (None, w)), (\<lambda>ctx w. (Some ''db down'', w))]
                      (WithTimeout \<lparr>ctxValues = [], ctxTimeout = None\<rparr> (5 * Second)) (0::nat)). e \<noteq> None)
        \<and> rr_statusCode res = 503
        \<and> hr_Status (rr_response res) = ''error''
        \<and> map (\<lambda>c. (cr_Status c, cr_Error c)) (hr_Checks (rr_response res))
            = [(''ok'', ''''), (''error'', ''db down'')])
   \<and> (case ReadinessHandler (\<lambda>c. None)
          [(\<lambda>ctx w. (None, w)), (\<lambda>ctx w. (None, w))] Map.empty
          \<lparr>Method = ''GET'', URL_Path = ''/readyz'', RemoteAddr = ''10.0.0.1:4000'', Header = Map.empty,
           Context = \<lparr>ctxValues = [], ctxTimeout = None\<rparr>\<rparr> (0::nat) of
      (res, world') \<Rightarrow>
        (\<forall>e \<in> set (probeReturns [(\<lambda>ctx w. (None, w)), (\<lambda>ctx w. (None, w))]
                      (WithTimeout \<lparr>ctxValues = [], ctxTimeout = None\<rparr> (5 * Second)) (0::nat)). e = None)
        \<and> rr_statusCode res = 200
        \<and> hr_Status (rr_response res) = ''ok'')"
  using readiness_verdict [where nameOf = "\<lambda>c. None" and checkers = "[(\<lambda>ctx w. (None, w)), (\<lambda>ctx w. (Some ''db down'', w))]"
      and w = Map.empty and world = "0::nat"
      and r = "\<lparr>Method = ''GET'', URL_Path = ''/readyz'', RemoteAddr = ''10.0.0.1:4000'', Header = Map.empty,
           Context = \<lparr>ctxValues = [], ctxTimeout = None\<rparr>\<rparr>"]
    readiness_verdict [where nameOf = "\<lambda>c. None" and checkers = "[(\<lambda>ctx w. (None, w)), (\<lambda>ctx w. (None, w))]"
      and w = Map.empty and world = "0::nat"
      and r = "\<lparr>Method = ''GET'', URL_Path = ''/readyz'', RemoteAddr = ''10.0.0.1:4000'', Header = Map.empty,
           Context = \<lparr>ctxValues = [], ctxTimeout = None\<rparr>\<rparr>"]
  by (simp add: ReadinessHandler_def Let_def StatusOK_def StatusServiceUnavailable_def)

end
